theory Spec2Isabelle
  imports Complex_Main
begin

section \<open>The store as the scorer and the feeds read it\<close>

text \<open>
  The compatibility scorer (\<^verbatim>\<open>app/services/matching.py\<close>) and the two feeds
  (\<^verbatim>\<open>app/routers/discovery.py\<close>, \<^verbatim>\<open>app/routers/recommendations.py\<close>) only read the
  database, through a query client. The store is the tables they read, each a list of
  rows. Python floats are modelled as real numbers.
\<close>

type_synonym uid = string
type_synonym interest_id = string

datatype 'a response = Raised | Data 'a

text \<open>
  Modelled from the spec: the query client is the supabase library, which is not part of
  the repository. A query that ends in \<^verbatim>\<open>.execute()\<close> answers with the list of the rows
  that pass its filters. A query that ends in \<^verbatim>\<open>.single().execute()\<close> answers with
  the one row that passes them and raises when there is none (or more than one): the
  specification (section 9) records that the source relies on catching a generic failure
  to mean "no row", as \<^verbatim>\<open>get_current_location\<close> in \<^verbatim>\<open>routers/locations.py\<close> and block 3
  of the scorer do. A row is a non-empty dict, so the tests \<^verbatim>\<open>if not resp.data\<close> that
  follow such a look-up never fire.
\<close>

definition single :: "'a list \<Rightarrow> 'a response" where
  "single rows = (case rows of [r] \<Rightarrow> Data r | _ \<Rightarrow> Raised)"

text \<open>A row of \<^verbatim>\<open>user_lifestyle\<close> or \<^verbatim>\<open>user_goals\<close> as the dict that \<^verbatim>\<open>select("*")\<close>
  returns: column name to nullable text, the column \<^verbatim>\<open>user_id\<close> among them. The empty
  dict is falsy in Python.\<close>

type_synonym row = "(string \<times> string option) list"

record loc_row =
  l_user_id :: uid
  latitude :: "real option"
  longitude :: "real option"

text \<open>A row of \<^verbatim>\<open>users\<close> with the columns that the scorer and the pool queries read;
  \<^verbatim>\<open>latitude\<close> and \<^verbatim>\<open>longitude\<close> are the columns of \<^verbatim>\<open>user_locations\<close> that the pool
  queries of the two routers select along. \<open>None\<close> is a null column.\<close>

record user_row =
  u_id :: uid
  u_email :: string
  u_age :: "int option"
  u_gender :: "string option"
  u_traits :: "string list option"
  u_values :: "string list option"
  u_green_flags :: "string list option"
  u_red_flags :: "string list option"
  u_lifestyle :: "string list option"
  u_created_at :: string
  u_latitude :: "real option"
  u_longitude :: "real option"
  u_is_verified :: bool
  u_deleted_at :: "string option"

record filters_row =
  f_user_id :: uid
  f_min_age :: "int option"
  f_max_age :: "int option"
  f_max_distance_km :: "int option"

record block_row =
  blocker_id :: uid
  blocked_id :: uid
  b_deleted_at :: "string option"

record match_row =
  m_user1 :: uid
  m_user2 :: uid
  m_deleted_at :: "string option"

record report_row =
  reporter_id :: uid
  reported_id :: uid
  r_deleted_at :: "string option"

record store =
  users :: "user_row list"
  user_interests :: "(uid \<times> interest_id) list"
  user_locations :: "loc_row list"
  user_lifestyle :: "row list"
  user_goals :: "row list"
  user_filters :: "filters_row list"
  user_blocks :: "block_row list"
  matches_table :: "match_row list"
  abuse_reports :: "report_row list"

text \<open>The five look-ups by user: \<^verbatim>\<open>.eq("id", u)\<close> on \<^verbatim>\<open>users\<close> and
  \<^verbatim>\<open>.eq("user_id", u)\<close> on the other tables, each followed by \<^verbatim>\<open>.single()\<close>.\<close>

definition user_by_id :: "store \<Rightarrow> uid \<Rightarrow> user_row response" where
  "user_by_id st u = single (filter (\<lambda>r. u_id r = u) (users st))"

definition location_single :: "store \<Rightarrow> uid \<Rightarrow> loc_row response" where
  "location_single st u = single (filter (\<lambda>r. l_user_id r = u) (user_locations st))"

definition owned_by :: "uid \<Rightarrow> row \<Rightarrow> bool" where
  "owned_by u r = (map_of r ''user_id'' = Some (Some u))"

definition lifestyle_single :: "store \<Rightarrow> uid \<Rightarrow> row response" where
  "lifestyle_single st u = single (filter (owned_by u) (user_lifestyle st))"

definition goals_single :: "store \<Rightarrow> uid \<Rightarrow> row response" where
  "goals_single st u = single (filter (owned_by u) (user_goals st))"

definition filters_single :: "store \<Rightarrow> uid \<Rightarrow> filters_row response" where
  "filters_single st u = single (filter (\<lambda>r. f_user_id r = u) (user_filters st))"

section \<open>Geodistance: \<^verbatim>\<open>haversine_distance\<close>\<close>

definition radians :: "real \<Rightarrow> real" where
  "radians d = d * pi / 180"

text \<open>\<^verbatim>\<open>math.sqrt\<close> raises \<^verbatim>\<open>ValueError\<close> on a negative argument.\<close>

definition py_sqrt :: "real \<Rightarrow> real response" where
  "py_sqrt x = (if x < 0 then Raised else Data (sqrt x))"

text \<open>\<^verbatim>\<open>math.atan2(y, x)\<close>: the angle of the point \<open>(x, y)\<close>, in \<open>(-\<pi>, \<pi>]\<close>.\<close>

definition atan2 :: "real \<Rightarrow> real \<Rightarrow> real" where
  "atan2 y x =
     (if 0 < x then arctan (y / x)
      else if x < 0 then (if 0 \<le> y then arctan (y / x) + pi else arctan (y / x) - pi)
      else if 0 < y then pi / 2
      else if y < 0 then - (pi / 2)
      else 0)"

definition haversine_a :: "real \<Rightarrow> real \<Rightarrow> real \<Rightarrow> real \<Rightarrow> real" where
  "haversine_a lat1 lon1 lat2 lon2 =
     (let lat1_rad = radians lat1;
          lat2_rad = radians lat2;
          delta_lat = radians (lat2 - lat1);
          delta_lon = radians (lon2 - lon1)
      in (sin (delta_lat / 2))\<^sup>2 + cos lat1_rad * cos lat2_rad * (sin (delta_lon / 2))\<^sup>2)"

definition haversine_distance :: "real \<Rightarrow> real \<Rightarrow> real \<Rightarrow> real \<Rightarrow> real response" where
  "haversine_distance lat1 lon1 lat2 lon2 =
     (let R = 6371;
          a = haversine_a lat1 lon1 lat2 lon2
      in case py_sqrt a of
           Raised \<Rightarrow> Raised
         | Data sa \<Rightarrow>
             (case py_sqrt (1 - a) of
                Raised \<Rightarrow> Raised
              | Data sb \<Rightarrow> Data (R * (2 * atan2 sa sb))))"

section \<open>The scorer: \<^verbatim>\<open>calculate_compatibility_score\<close>\<close>

text \<open>Blocks 1 and 2 of the source are the same computation on two pairs of sets, with
  the weights 40 and 30.\<close>

definition overlap_score :: "'a set \<Rightarrow> 'a set \<Rightarrow> real \<Rightarrow> real" where
  "overlap_score A B w =
     (if A \<noteq> {} \<and> B \<noteq> {} then
        (let shared = card (A \<inter> B);
             total = max (card A) (card B)
         in if 0 < total then (real shared / real total) * w else 0)
      else 0)"

definition interests_set :: "store \<Rightarrow> uid \<Rightarrow> interest_id set" where
  "interests_set st u = set (map snd (filter (\<lambda>r. fst r = u) (user_interests st)))"

text \<open>\<^verbatim>\<open>set(user.get("values", []) or [])\<close>\<close>

definition values_set :: "user_row \<Rightarrow> string set" where
  "values_set u = (case u_values u of None \<Rightarrow> {} | Some vs \<Rightarrow> set vs)"

text \<open>Block 3. Every exception inside the block, a look-up without a row and
  \<^verbatim>\<open>float(None)\<close> included, is caught by the block's own \<^verbatim>\<open>except\<close> and gives 0.\<close>

definition proximity :: "real \<Rightarrow> real" where
  "proximity distance_km = max 0 ((1 - min distance_km 30 / 30) * 15)"

definition location_score :: "store \<Rightarrow> uid \<Rightarrow> uid \<Rightarrow> real" where
  "location_score st user1_id user2_id =
     (case location_single st user1_id of
        Raised \<Rightarrow> 0
      | Data loc1 \<Rightarrow>
          (case location_single st user2_id of
             Raised \<Rightarrow> 0
           | Data loc2 \<Rightarrow>
               (case (latitude loc1, longitude loc1, latitude loc2, longitude loc2) of
                  (Some lat1, Some lon1, Some lat2, Some lon2) \<Rightarrow>
                    (case haversine_distance lat1 lon1 lat2 lon2 of
                       Raised \<Rightarrow> 0
                     | Data distance_km \<Rightarrow> proximity distance_km)
                | _ \<Rightarrow> 0)))"

text \<open>Blocks 4 and 5: the loop over \<^verbatim>\<open>fields_to_check\<close>, carrying
  \<^verbatim>\<open>(matches, checks)\<close>.\<close>

fun count_fields :: "row \<Rightarrow> row \<Rightarrow> string list \<Rightarrow> nat \<times> nat \<Rightarrow> nat \<times> nat" where
  "count_fields r1 r2 [] mc = mc"
| "count_fields r1 r2 (field # rest) (matches, checks) =
     (if map_of r1 field \<noteq> None \<and> map_of r2 field \<noteq> None then
        count_fields r1 r2 rest
          (if map_of r1 field = map_of r2 field then matches + 1 else matches, checks + 1)
      else count_fields r1 r2 rest (matches, checks))"

definition field_score :: "row \<Rightarrow> row \<Rightarrow> string list \<Rightarrow> real \<Rightarrow> real" where
  "field_score r1 r2 fields_to_check w =
     (if r1 \<noteq> [] \<and> r2 \<noteq> [] then
        (case count_fields r1 r2 fields_to_check (0, 0) of
           (matches, checks) \<Rightarrow>
             if 0 < checks then (real matches / real checks) * w else 0)
      else 0)"

definition lifestyle_fields :: "string list" where
  "lifestyle_fields = [''smoking'', ''drinking'', ''diet'', ''social_lifestyle'']"

definition goals_fields :: "string list" where
  "goals_fields = [''wants_kids'', ''marriage_timeline'', ''relationship_type'']"

text \<open>The whole function. The look-ups of \<^verbatim>\<open>users\<close>, \<^verbatim>\<open>user_lifestyle\<close> and
  \<^verbatim>\<open>user_goals\<close> stand outside block 3: when one of them raises, the outer
  \<^verbatim>\<open>except Exception\<close> returns \<^verbatim>\<open>(0.0, 0.0)\<close>.\<close>

definition calculate_compatibility_score :: "store \<Rightarrow> uid \<Rightarrow> uid \<Rightarrow> real \<times> real" where
  "calculate_compatibility_score st user1_id user2_id =
     (case user_by_id st user1_id of
        Raised \<Rightarrow> (0, 0)
      | Data user1 \<Rightarrow>
     (case user_by_id st user2_id of
        Raised \<Rightarrow> (0, 0)
      | Data user2 \<Rightarrow>
          (let interest_score =
                 overlap_score (interests_set st user1_id) (interests_set st user2_id) 40;
               values_score = overlap_score (values_set user1) (values_set user2) 30;
               location_score = location_score st user1_id user2_id
           in
           (case lifestyle_single st user1_id of
              Raised \<Rightarrow> (0, 0)
            | Data lifestyle1 \<Rightarrow>
           (case lifestyle_single st user2_id of
              Raised \<Rightarrow> (0, 0)
            | Data lifestyle2 \<Rightarrow>
           (let lifestyle_score = field_score lifestyle1 lifestyle2 lifestyle_fields 10
            in
            (case goals_single st user1_id of
               Raised \<Rightarrow> (0, 0)
             | Data goals1 \<Rightarrow>
            (case goals_single st user2_id of
               Raised \<Rightarrow> (0, 0)
             | Data goals2 \<Rightarrow>
            (let goals_score = field_score goals1 goals2 goals_fields 5;
                 total_score = interest_score + values_score + location_score
                               + lifestyle_score + goals_score
             in (total_score, total_score))))))))))"

section \<open>Shared pieces of the feeds\<close>

text \<open>What an endpoint answers when it does not return a page. \<^verbatim>\<open>Text\<close> is a detail
  written out in the source and \<^verbatim>\<open>Str e\<close> stands for \<^verbatim>\<open>detail=str(e)\<close> of the generic
  handler; \<^verbatim>\<open>RequestValidationError\<close> is the 422
  answer of the framework to a query parameter outside the bounds declared in the
  signature (\<^verbatim>\<open>Query(..., ge=..., le=...)\<close>).\<close>

datatype py_exception = ClientError | TypeError | ValueError | AttributeError

datatype detail = Text string | Str py_exception

datatype http_error = HTTPException nat detail | RequestValidationError

record 'a page =
  p_data :: "'a list"
  p_total :: nat
  p_limit :: int
  p_offset :: int

text \<open>\<^verbatim>\<open>xs[lo:hi]\<close>, with Python's treatment of negative and too large bounds.\<close>

definition slice_bound :: "nat \<Rightarrow> int \<Rightarrow> nat" where
  "slice_bound n i = (if i < 0 then nat (max 0 (int n + i)) else min n (nat i))"

definition py_slice :: "'a list \<Rightarrow> int \<Rightarrow> int \<Rightarrow> 'a list" where
  "py_slice xs lo hi =
     (let a = slice_bound (length xs) lo;
          b = slice_bound (length xs) hi
      in take (b - a) (drop a xs))"

text \<open>\<^verbatim>\<open>round(x, ndigits)\<close>: to the nearest multiple of \<open>10\<^sup>-\<^sup>n\<close>, ties to the even one.\<close>

definition round_half_even :: "real \<Rightarrow> int" where
  "round_half_even x =
     (let f = \<lfloor>x\<rfloor>; d = x - of_int f
      in if d < 1 / 2 then f else if 1 / 2 < d then f + 1 else if even f then f else f + 1)"

definition py_round :: "real \<Rightarrow> nat \<Rightarrow> real" where
  "py_round x ndigits = of_int (round_half_even (x * 10 ^ ndigits)) / 10 ^ ndigits"

text \<open>The candidate pool of all three feeds:
  \<^verbatim>\<open>.eq("is_verified", True).is_("deleted_at", None)\<close> on \<^verbatim>\<open>users\<close>.\<close>

definition all_users :: "store \<Rightarrow> user_row list" where
  "all_users st = filter (\<lambda>u. u_is_verified u \<and> u_deleted_at u = None) (users st)"

definition blocked_ids :: "store \<Rightarrow> uid \<Rightarrow> uid set" where
  "blocked_ids st user_id =
     set (map blocked_id
       (filter (\<lambda>b. blocker_id b = user_id \<and> b_deleted_at b = None) (user_blocks st)))"

definition reported_ids :: "store \<Rightarrow> uid \<Rightarrow> uid set" where
  "reported_ids st user_id =
     set (map reported_id
       (filter (\<lambda>r. reporter_id r = user_id \<and> r_deleted_at r = None) (abuse_reports st)))"

text \<open>\<^verbatim>\<open>.or_("user1.eq.U,user2.eq.U").is_("deleted_at", None)\<close> on \<^verbatim>\<open>matches\<close>.\<close>

definition matched_rows :: "store \<Rightarrow> uid \<Rightarrow> match_row list" where
  "matched_rows st user_id =
     filter (\<lambda>m. (m_user1 m = user_id \<or> m_user2 m = user_id) \<and> m_deleted_at m = None)
       (matches_table st)"

text \<open>Python's \<^verbatim>\<open>a or b\<close> on values that are \<^verbatim>\<open>None\<close> or a string: the empty string is
  falsy.\<close>

definition py_or :: "string option \<Rightarrow> string option \<Rightarrow> string option" where
  "py_or a b = (case a of None \<Rightarrow> b | Some s \<Rightarrow> if s \<noteq> [] then a else b)"

section \<open>The discovery feed: \<^verbatim>\<open>get_discovery\<close>\<close>

record candidate =
  c_id :: uid
  c_email :: string
  c_traits :: "string list"
  c_values :: "string list"
  c_green_flags :: "string list"
  c_red_flags :: "string list"
  c_lifestyle :: "string list"
  c_distance_km :: real
  c_created_at :: string

text \<open>An entry of the page: the candidate dict with \<^verbatim>\<open>match_percentage\<close> added.\<close>

record discovery_item =
  d_candidate :: candidate
  d_match_percentage :: real

definition discovery_query_valid :: "int \<Rightarrow> int \<Rightarrow> int \<Rightarrow> int \<Rightarrow> int \<Rightarrow> string \<Rightarrow> bool" where
  "discovery_query_valid distance_km limit offset min_age max_age sort_by =
     (1 \<le> distance_km \<and> distance_km \<le> 500 \<and> 1 \<le> limit \<and> limit \<le> 100 \<and> 0 \<le> offset
      \<and> 18 \<le> min_age \<and> min_age \<le> 100 \<and> 18 \<le> max_age \<and> max_age \<le> 100
      \<and> (sort_by = ''distance'' \<or> sort_by = ''compatibility''))"

text \<open>\<^verbatim>\<open>x or []\<close> on a nullable list column.\<close>

definition or_empty :: "'a list option \<Rightarrow> 'a list" where
  "or_empty v = (case v of None \<Rightarrow> [] | Some xs \<Rightarrow> xs)"

text \<open>The first loop. \<^verbatim>\<open>geodesic\<close> is \<^verbatim>\<open>geopy.distance.geodesic(p, q).kilometers\<close>, a
  library function outside the repository, taken as a parameter. \<^verbatim>\<open>float(None)\<close> raises
  \<^verbatim>\<open>TypeError\<close>, which ends the request in the generic handler.\<close>

fun discovery_candidates ::
  "(real \<times> real \<Rightarrow> real \<times> real \<Rightarrow> real) \<Rightarrow> uid \<Rightarrow> real \<Rightarrow> real \<Rightarrow> int \<Rightarrow> user_row list
   \<Rightarrow> py_exception + candidate list" where
  "discovery_candidates geodesic user_id user_lat user_lon distance_km [] = Inr []"
| "discovery_candidates geodesic user_id user_lat user_lon distance_km (usr # rest) =
     (if u_id usr = user_id then
        discovery_candidates geodesic user_id user_lat user_lon distance_km rest
      else
        (case u_latitude usr of
           None \<Rightarrow> Inl TypeError
         | Some target_lat \<Rightarrow>
        (case u_longitude usr of
           None \<Rightarrow> Inl TypeError
         | Some target_lon \<Rightarrow>
        (let dist = geodesic (user_lat, user_lon) (target_lat, target_lon)
         in if dist > of_int distance_km then
              discovery_candidates geodesic user_id user_lat user_lon distance_km rest
            else
              (case discovery_candidates geodesic user_id user_lat user_lon distance_km rest of
                 Inl e \<Rightarrow> Inl e
               | Inr candidates \<Rightarrow>
                   Inr (\<lparr> c_id = u_id usr,
                          c_email = u_email usr,
                          c_traits = or_empty (u_traits usr),
                          c_values = or_empty (u_values usr),
                          c_green_flags = or_empty (u_green_flags usr),
                          c_red_flags = or_empty (u_red_flags usr),
                          c_lifestyle = or_empty (u_lifestyle usr),
                          c_distance_km = py_round dist 1,
                          c_created_at = u_created_at usr \<rparr> # candidates))))))"

text \<open>
  After the loop the function reads the blocks and the viewer's matches, and on line 63
  calls \<^verbatim>\<open>matched_ids.extend(...)\<close>. \<^verbatim>\<open>matched_ids\<close> is the response object of the first
  match query (line 64 reads its \<^verbatim>\<open>data\<close>), not a list: it has no \<^verbatim>\<open>extend\<close>, the
  attribute look-up raises \<^verbatim>\<open>AttributeError\<close>, and the generic handler answers 500.
  Lines 64 to 90 (the exclusions, the scoring, the sort and the page) are never reached.
  Nor is line 26, the 400 "User location not set": the look-up on line 24 raises for a
  viewer without a location row and answers with a row otherwise.
\<close>

definition get_discovery ::
  "store \<Rightarrow> (real \<times> real \<Rightarrow> real \<times> real \<Rightarrow> real) \<Rightarrow> uid \<Rightarrow> int \<Rightarrow> int \<Rightarrow> int \<Rightarrow> int \<Rightarrow> int \<Rightarrow> string
   \<Rightarrow> http_error + discovery_item page" where
  "get_discovery st geodesic user_id distance_km limit offset min_age max_age sort_by =
     (if \<not> discovery_query_valid distance_km limit offset min_age max_age sort_by then
        Inl RequestValidationError
      else
        (case location_single st user_id of
           Raised \<Rightarrow> Inl (HTTPException 500 (Str ClientError))
         | Data user_loc \<Rightarrow>
        (case latitude user_loc of
           None \<Rightarrow> Inl (HTTPException 500 (Str TypeError))
         | Some user_lat \<Rightarrow>
        (case longitude user_loc of
           None \<Rightarrow> Inl (HTTPException 500 (Str TypeError))
         | Some user_lon \<Rightarrow>
        (case discovery_candidates geodesic user_id user_lat user_lon distance_km (all_users st) of
           Inl e \<Rightarrow> Inl (HTTPException 500 (Str e))
         | Inr candidates \<Rightarrow> Inl (HTTPException 500 (Str AttributeError)))))))"

section \<open>The recommendation feed: \<^verbatim>\<open>get_user_recommendations\<close>\<close>

record recommendation_item =
  rc_id :: uid
  rc_age :: "int option"
  rc_gender :: "string option"
  rc_compatibility_score :: real
  rc_match_percentage :: real

definition recommendations_query_valid :: "int \<Rightarrow> int \<Rightarrow> bool" where
  "recommendations_query_valid limit offset = (1 \<le> limit \<and> limit \<le> 100 \<and> 0 \<le> offset)"

text \<open>\<^verbatim>\<open>min_age <= age <= max_age\<close>: the second comparison is made only when the first
  holds, and a comparison with \<^verbatim>\<open>None\<close> raises \<^verbatim>\<open>TypeError\<close>. The bounds are
  \<^verbatim>\<open>filters.get("min_age", 18)\<close> and \<^verbatim>\<open>filters.get("max_age", 50)\<close>; \<^verbatim>\<open>filters\<close> is the
  saved row, which has every column, so \<^verbatim>\<open>get\<close> gives the column, \<^verbatim>\<open>None\<close> when it is
  null, and never the default.\<close>

definition age_in_range :: "int option \<Rightarrow> int \<Rightarrow> int option \<Rightarrow> py_exception + bool" where
  "age_in_range min_age age max_age =
     (case min_age of
        None \<Rightarrow> Inl TypeError
      | Some lo \<Rightarrow>
          if lo \<le> age then (case max_age of None \<Rightarrow> Inl TypeError | Some hi \<Rightarrow> Inr (age \<le> hi))
          else Inr False)"

text \<open>Truthiness of a nullable number, as in \<^verbatim>\<open>if user_data.get("age"):\<close>. \<^verbatim>\<open>None\<close>
  and zero are falsy; a truthy value is handed on.\<close>

definition truthy :: "'a::zero option \<Rightarrow> 'a option" where
  "truthy v = (case v of None \<Rightarrow> None | Some x \<Rightarrow> if x \<noteq> 0 then Some x else None)"

text \<open>The body of the filter loop for one row: \<^verbatim>\<open>Inr True\<close> when the row is appended,
  \<^verbatim>\<open>Inr False\<close> on \<^verbatim>\<open>continue\<close>.

  \<^verbatim>\<open>haversine\<close> is the call of \<^verbatim>\<open>haversine_distance\<close> on line 75 as the machine
  evaluates it. Over the reals the square roots of \<open>haversine_distance\<close> are always
  defined, but in floating point the haversine term can round to a value above 1 near
  antipodal points, and then \<^verbatim>\<open>math.sqrt\<close> raises \<^verbatim>\<open>ValueError\<close>. Inside the scorer
  that exception and the distance it replaces both give the factor 0; here it ends the
  request, so the feed takes the evaluation as a parameter that may raise.\<close>

definition recommendation_keeps ::
  "(real \<Rightarrow> real \<Rightarrow> real \<Rightarrow> real \<Rightarrow> real response) \<Rightarrow> uid set \<Rightarrow> filters_row \<Rightarrow> real \<Rightarrow> real
   \<Rightarrow> user_row \<Rightarrow> py_exception + bool" where
  "recommendation_keeps haversine excluded_ids filters user_lat user_lon user_data =
     (if u_id user_data \<in> excluded_ids then Inr False
      else
        (case (case truthy (u_age user_data) of
                 Some age \<Rightarrow> age_in_range (f_min_age filters) age (f_max_age filters)
               | None \<Rightarrow> Inr True) of
           Inl e \<Rightarrow> Inl e
         | Inr False \<Rightarrow> Inr False
         | Inr True \<Rightarrow>
             (case (truthy (u_latitude user_data), truthy (u_longitude user_data)) of
                (Some target_lat, Some target_lon) \<Rightarrow>
                  (case haversine user_lat user_lon target_lat target_lon of
                     Raised \<Rightarrow> Inl ValueError
                   | Data distance_km \<Rightarrow>
                       (case f_max_distance_km filters of
                          None \<Rightarrow> Inl TypeError
                        | Some max_distance \<Rightarrow> Inr (\<not> distance_km > of_int max_distance)))
              | _ \<Rightarrow> Inr True)))"

fun recommendation_candidates ::
  "(real \<Rightarrow> real \<Rightarrow> real \<Rightarrow> real \<Rightarrow> real response) \<Rightarrow> uid set \<Rightarrow> filters_row \<Rightarrow> real \<Rightarrow> real
   \<Rightarrow> user_row list \<Rightarrow> py_exception + user_row list" where
  "recommendation_candidates haversine excluded_ids filters user_lat user_lon [] = Inr []"
| "recommendation_candidates haversine excluded_ids filters user_lat user_lon (user_data # rest) =
     (case recommendation_keeps haversine excluded_ids filters user_lat user_lon user_data of
        Inl e \<Rightarrow> Inl e
      | Inr keep \<Rightarrow>
          (case recommendation_candidates haversine excluded_ids filters user_lat user_lon rest of
             Inl e \<Rightarrow> Inl e
           | Inr candidates \<Rightarrow> Inr (if keep then user_data # candidates else candidates)))"

text \<open>\<^verbatim>\<open>m["user1"] if m["user1"] != user_id else m["user2"]\<close>\<close>

definition router_matched_ids :: "store \<Rightarrow> uid \<Rightarrow> uid set" where
  "router_matched_ids st user_id =
     set (map (\<lambda>m. if m_user1 m \<noteq> user_id then m_user1 m else m_user2 m)
            (matched_rows st user_id))"

definition recommendation_entry :: "store \<Rightarrow> uid \<Rightarrow> user_row \<Rightarrow> recommendation_item" where
  "recommendation_entry st user_id candidate =
     (case calculate_compatibility_score st user_id (u_id candidate) of
        (score, match_pct) \<Rightarrow>
          \<lparr> rc_id = u_id candidate,
            rc_age = u_age candidate,
            rc_gender = u_gender candidate,
            rc_compatibility_score = py_round score 2,
            rc_match_percentage = py_round match_pct 2 \<rparr>)"

text \<open>The look-ups of the viewer's location and of the viewer's saved filters raise when
  there is no row, and the generic handler answers 500; line 26, the 400 "Location not
  set", is not reached. The analytics event is handed to a background task and is not
  part of the answer.\<close>

definition get_user_recommendations ::
  "store \<Rightarrow> (real \<Rightarrow> real \<Rightarrow> real \<Rightarrow> real \<Rightarrow> real response) \<Rightarrow> uid \<Rightarrow> int \<Rightarrow> int
   \<Rightarrow> http_error + recommendation_item page" where
  "get_user_recommendations st haversine user_id limit offset =
     (if \<not> recommendations_query_valid limit offset then Inl RequestValidationError
      else
        (case location_single st user_id of
           Raised \<Rightarrow> Inl (HTTPException 500 (Str ClientError))
         | Data user_loc \<Rightarrow>
        (case latitude user_loc of
           None \<Rightarrow> Inl (HTTPException 500 (Str TypeError))
         | Some user_lat \<Rightarrow>
        (case longitude user_loc of
           None \<Rightarrow> Inl (HTTPException 500 (Str TypeError))
         | Some user_lon \<Rightarrow>
        (case filters_single st user_id of
           Raised \<Rightarrow> Inl (HTTPException 500 (Str ClientError))
         | Data filters \<Rightarrow>
        (let excluded_ids = blocked_ids st user_id \<union> router_matched_ids st user_id
                            \<union> reported_ids st user_id \<union> {user_id}
         in
         (case recommendation_candidates haversine excluded_ids filters user_lat user_lon
                 (all_users st) of
            Inl e \<Rightarrow> Inl (HTTPException 500 (Str e))
          | Inr candidates \<Rightarrow>
         (let recommendations =
                sort_key (\<lambda>x. - rc_compatibility_score x)
                  (map (recommendation_entry st user_id) candidates);
              total_count = length recommendations;
              paginated = py_slice recommendations offset (offset + limit)
          in Inr \<lparr> p_data = paginated, p_total = total_count,
                   p_limit = limit, p_offset = offset \<rparr>))))))))"

section \<open>The service function: \<^verbatim>\<open>get_recommendations\<close>\<close>

record recommendation =
  sr_id :: uid
  sr_score :: real
  sr_match_percentage :: real

text \<open>The comprehension over the matched rows, with its condition
  \<^verbatim>\<open>m.get("user1") != user_id and m.get("user2") != user_id\<close> and its element
  \<^verbatim>\<open>m.get("user1") or m.get("user2")\<close>.\<close>

definition service_matched_ids :: "store \<Rightarrow> uid \<Rightarrow> uid option set" where
  "service_matched_ids st user_id =
     set (map (\<lambda>m. py_or (Some (m_user1 m)) (Some (m_user2 m)))
            (filter (\<lambda>m. m_user1 m \<noteq> user_id \<and> m_user2 m \<noteq> user_id)
               (matched_rows st user_id)))"

text \<open>The body of the filter loop. \<^verbatim>\<open>filters\<close> is the saved row, a non-empty dict, so
  \<^verbatim>\<open>if filters:\<close> holds.\<close>

definition service_keeps ::
  "uid set \<Rightarrow> uid option set \<Rightarrow> filters_row \<Rightarrow> user_row \<Rightarrow> py_exception + bool" where
  "service_keeps blocked_and_reported matched_ids filters candidate =
     (if u_id candidate \<in> blocked_and_reported \<or> Some (u_id candidate) \<in> matched_ids
      then Inr False
      else
        (case truthy (u_age candidate) of
           Some age \<Rightarrow> age_in_range (f_min_age filters) age (f_max_age filters)
         | None \<Rightarrow> Inr True))"

fun service_candidates ::
  "uid set \<Rightarrow> uid option set \<Rightarrow> filters_row \<Rightarrow> user_row list
   \<Rightarrow> py_exception + user_row list" where
  "service_candidates blocked_and_reported matched_ids filters [] = Inr []"
| "service_candidates blocked_and_reported matched_ids filters (candidate # rest) =
     (case service_keeps blocked_and_reported matched_ids filters candidate of
        Inl e \<Rightarrow> Inl e
      | Inr keep \<Rightarrow>
          (case service_candidates blocked_and_reported matched_ids filters rest of
             Inl e \<Rightarrow> Inl e
           | Inr candidates \<Rightarrow> Inr (if keep then candidate # candidates else candidates)))"

definition service_entry :: "store \<Rightarrow> uid \<Rightarrow> user_row \<Rightarrow> recommendation" where
  "service_entry st user_id candidate =
     (case calculate_compatibility_score st user_id (u_id candidate) of
        (score, match_pct) \<Rightarrow>
          \<lparr> sr_id = u_id candidate, sr_score = score, sr_match_percentage = match_pct \<rparr>)"

text \<open>Every exception, the look-up of a viewer without a \<^verbatim>\<open>users\<close> or a
  \<^verbatim>\<open>user_filters\<close> row included, is caught by the function's own handler, which returns
  the empty list. \<^verbatim>\<open>excluded_ids\<close> is the union of the three sets and \<^verbatim>\<open>{user_id}\<close>; the
  matched part is kept apart here because its elements may be \<^verbatim>\<open>None\<close>.\<close>

definition get_recommendations :: "store \<Rightarrow> uid \<Rightarrow> int \<Rightarrow> int \<Rightarrow> recommendation list" where
  "get_recommendations st user_id limit offset =
     (case user_by_id st user_id of
        Raised \<Rightarrow> []
      | Data user \<Rightarrow>
     (case filters_single st user_id of
        Raised \<Rightarrow> []
      | Data filters \<Rightarrow>
     (case service_candidates
             (blocked_ids st user_id \<union> reported_ids st user_id \<union> {user_id})
             (service_matched_ids st user_id) filters (all_users st) of
        Inl e \<Rightarrow> []
      | Inr candidates \<Rightarrow>
          (let recommendations =
                 sort_key (\<lambda>x. - sr_score x) (map (service_entry st user_id) candidates)
           in py_slice recommendations offset (offset + limit)))))"

section \<open>The specification's side\<close>

text \<open>The definitions of this section follow the words of the specification, not the
  code; the theorems below compare the two.\<close>

definition spec_overlap :: "'a set \<Rightarrow> 'a set \<Rightarrow> real \<Rightarrow> real" where
  "spec_overlap A B W =
     (if A = {} \<or> B = {} then 0
      else real (card (A \<inter> B)) / real (max (card A) (card B)) * W)"

text \<open>The record of a user in a table, if there is one.\<close>

definition record_of :: "'a response \<Rightarrow> 'a option" where
  "record_of r = (case r of Raised \<Rightarrow> None | Data x \<Rightarrow> Some x)"

text \<open>A user has a recorded coordinate when there is a location row whose latitude and
  longitude are both set.\<close>

definition coordinate :: "store \<Rightarrow> uid \<Rightarrow> (real \<times> real) option" where
  "coordinate st u =
     (case location_single st u of
        Data l \<Rightarrow>
          (case (latitude l, longitude l) of
             (Some lat, Some lon) \<Rightarrow> Some (lat, lon)
           | _ \<Rightarrow> None)
      | Raised \<Rightarrow> None)"

text \<open>The haversine great-circle distance with Earth radius 6371 km, as a number.\<close>

definition haversine_km :: "real \<times> real \<Rightarrow> real \<times> real \<Rightarrow> real" where
  "haversine_km p q =
     (let a = haversine_a (fst p) (snd p) (fst q) (snd q)
      in 6371 * (2 * atan2 (sqrt a) (sqrt (1 - a))))"

definition spec_proximity :: "(real \<times> real) option \<Rightarrow> (real \<times> real) option \<Rightarrow> real" where
  "spec_proximity c1 c2 =
     (case (c1, c2) of
        (Some p, Some q) \<Rightarrow> max 0 ((1 - min (haversine_km p q) 30 / 30) * 15)
      | _ \<Rightarrow> 0)"

definition has_field :: "row option \<Rightarrow> string \<Rightarrow> bool" where
  "has_field r f = (case r of None \<Rightarrow> False | Some kv \<Rightarrow> map_of kv f \<noteq> None)"

definition field_of :: "row option \<Rightarrow> string \<Rightarrow> string option option" where
  "field_of r f = (case r of None \<Rightarrow> None | Some kv \<Rightarrow> map_of kv f)"

text \<open>\<open>(matches / fields_checked) * W\<close>, where the fields checked are those present in
  both records and a match is a checked field with equal values; 0 when no field is
  checked, in particular when a record is absent.\<close>

definition spec_field_equality :: "row option \<Rightarrow> row option \<Rightarrow> string list \<Rightarrow> real \<Rightarrow> real" where
  "spec_field_equality r1 r2 fs W =
     (let fields_checked = filter (\<lambda>f. has_field r1 f \<and> has_field r2 f) fs;
          matching = filter (\<lambda>f. field_of r1 f = field_of r2 f) fields_checked
      in if fields_checked = [] then 0
         else real (length matching) / real (length fields_checked) * W)"

text \<open>The five factors of the specification for two users with the profiles \<open>p1\<close> and
  \<open>p2\<close>, and their sum.\<close>

definition spec_interest_factor :: "store \<Rightarrow> uid \<Rightarrow> uid \<Rightarrow> real" where
  "spec_interest_factor st u1 u2 = spec_overlap (interests_set st u1) (interests_set st u2) 40"

definition spec_values_factor :: "user_row \<Rightarrow> user_row \<Rightarrow> real" where
  "spec_values_factor p1 p2 = spec_overlap (values_set p1) (values_set p2) 30"

definition spec_location_factor :: "store \<Rightarrow> uid \<Rightarrow> uid \<Rightarrow> real" where
  "spec_location_factor st u1 u2 = spec_proximity (coordinate st u1) (coordinate st u2)"

definition spec_lifestyle_factor :: "store \<Rightarrow> uid \<Rightarrow> uid \<Rightarrow> real" where
  "spec_lifestyle_factor st u1 u2 =
     spec_field_equality (record_of (lifestyle_single st u1)) (record_of (lifestyle_single st u2))
       [''smoking'', ''drinking'', ''diet'', ''social_lifestyle''] 10"

definition spec_goals_factor :: "store \<Rightarrow> uid \<Rightarrow> uid \<Rightarrow> real" where
  "spec_goals_factor st u1 u2 =
     spec_field_equality (record_of (goals_single st u1)) (record_of (goals_single st u2))
       [''wants_kids'', ''marriage_timeline'', ''relationship_type''] 5"

definition spec_score :: "store \<Rightarrow> uid \<Rightarrow> user_row \<Rightarrow> uid \<Rightarrow> user_row \<Rightarrow> real" where
  "spec_score st u1 p1 u2 p2 =
     spec_interest_factor st u1 u2 + spec_values_factor p1 p2 + spec_location_factor st u1 u2
     + spec_lifestyle_factor st u1 u2 + spec_goals_factor st u1 u2"

text \<open>The exclusion set of a viewer: the viewer, the users the viewer has blocked, the
  other side of every non-deleted match of the viewer, and the users the viewer has
  reported.\<close>

definition spec_match_partners :: "store \<Rightarrow> uid \<Rightarrow> uid set" where
  "spec_match_partners st viewer =
     set (map m_user2
       (filter (\<lambda>m. m_user1 m = viewer \<and> m_deleted_at m = None) (matches_table st)))
     \<union> set (map m_user1
       (filter (\<lambda>m. m_user2 m = viewer \<and> m_deleted_at m = None) (matches_table st)))"

definition spec_exclusion_set :: "store \<Rightarrow> uid \<Rightarrow> uid set" where
  "spec_exclusion_set st viewer =
     {viewer} \<union> blocked_ids st viewer \<union> spec_match_partners st viewer
     \<union> reported_ids st viewer"

text \<open>The rows of the pool that survive the exclusions and the saved filters of the
  recommendation feed.\<close>

definition recommendation_survives ::
  "store \<Rightarrow> (real \<Rightarrow> real \<Rightarrow> real \<Rightarrow> real \<Rightarrow> real response) \<Rightarrow> uid \<Rightarrow> user_row \<Rightarrow> bool" where
  "recommendation_survives st haversine user_id usr =
     (case (coordinate st user_id, filters_single st user_id) of
        (Some viewer, Data filters) \<Rightarrow>
          recommendation_keeps haversine
            (blocked_ids st user_id \<union> router_matched_ids st user_id
             \<union> reported_ids st user_id \<union> {user_id})
            filters (fst viewer) (snd viewer) usr = Inr True
      | _ \<Rightarrow> False)"

text \<open>The store in which user \<open>u\<close> has no interests, no location row, no lifestyle row or
  no goals row.\<close>

definition without_interests :: "store \<Rightarrow> uid \<Rightarrow> store" where
  "without_interests st u = st\<lparr> user_interests := filter (\<lambda>r. fst r \<noteq> u) (user_interests st) \<rparr>"

definition without_location :: "store \<Rightarrow> uid \<Rightarrow> store" where
  "without_location st u = st\<lparr> user_locations := filter (\<lambda>r. l_user_id r \<noteq> u) (user_locations st) \<rparr>"

definition without_lifestyle :: "store \<Rightarrow> uid \<Rightarrow> store" where
  "without_lifestyle st u = st\<lparr> user_lifestyle := filter (\<lambda>r. \<not> owned_by u r) (user_lifestyle st) \<rparr>"

definition without_goals :: "store \<Rightarrow> uid \<Rightarrow> store" where
  "without_goals st u = st\<lparr> user_goals := filter (\<lambda>r. \<not> owned_by u r) (user_goals st) \<rparr>"

text \<open>Two users with existing profiles, identical interest sets and values sets,
  lifestyle records and goals records that agree on every compared field (the rows
  themselves differ in \<^verbatim>\<open>user_id\<close>), and the same recorded coordinate.\<close>

definition same_fields :: "row option \<Rightarrow> row option \<Rightarrow> string list \<Rightarrow> bool" where
  "same_fields r1 r2 fs = (map (field_of r1) fs = map (field_of r2) fs)"

definition identical_profiles :: "store \<Rightarrow> uid \<Rightarrow> uid \<Rightarrow> bool" where
  "identical_profiles st a b =
     (case (user_by_id st a, user_by_id st b) of
        (Data p, Data q) \<Rightarrow>
          interests_set st a = interests_set st b
          \<and> values_set p = values_set q
          \<and> same_fields (record_of (lifestyle_single st a)) (record_of (lifestyle_single st b))
                lifestyle_fields
          \<and> same_fields (record_of (goals_single st a)) (record_of (goals_single st b))
                goals_fields
          \<and> coordinate st a \<noteq> None \<and> coordinate st a = coordinate st b
      | _ \<Rightarrow> False)"

section \<open>Sample stores\<close>

definition sample_user :: "uid \<Rightarrow> user_row" where
  "sample_user i =
     \<lparr> u_id = i, u_email = i @ ''@example.org'', u_age = Some 30, u_gender = None,
       u_traits = None, u_values = Some [''honesty''], u_green_flags = None,
       u_red_flags = None, u_lifestyle = None, u_created_at = ''2024-01-01'',
       u_latitude = Some 1, u_longitude = Some 1, u_is_verified = True,
       u_deleted_at = None \<rparr>"

definition sample_lifestyle :: "uid \<Rightarrow> row" where
  "sample_lifestyle i =
     [(''user_id'', Some i), (''smoking'', Some ''never''), (''drinking'', Some ''socially''),
      (''diet'', None), (''social_lifestyle'', Some ''homebody'')]"

definition sample_goals :: "uid \<Rightarrow> row" where
  "sample_goals i =
     [(''user_id'', Some i), (''wants_kids'', Some ''yes''), (''marriage_timeline'', None),
      (''relationship_type'', Some ''long_term'')]"

text \<open>Ann, Bob and Cy are verified users at the same place, who share one interest and
  one value. Ann and Bob share a non-deleted match. Only Ann has a filters row; Bob has no
  goals row and Cy has no lifestyle row. Dee is not verified yet and has recorded no
  location.\<close>

definition sample_store :: store where
  "sample_store =
     \<lparr> users = [sample_user ''ann'', sample_user ''bob'', sample_user ''cy'',
                (sample_user ''dee'')\<lparr> u_latitude := None, u_longitude := None,
                                        u_is_verified := False \<rparr>],
       user_interests = [(''ann'', ''hiking''), (''bob'', ''hiking''), (''cy'', ''hiking'')],
       user_locations = [\<lparr> l_user_id = ''ann'', latitude = Some 1, longitude = Some 1 \<rparr>,
                         \<lparr> l_user_id = ''bob'', latitude = Some 1, longitude = Some 1 \<rparr>,
                         \<lparr> l_user_id = ''cy'', latitude = Some 1, longitude = Some 1 \<rparr>],
       user_lifestyle = [sample_lifestyle ''ann'', sample_lifestyle ''bob''],
       user_goals = [sample_goals ''ann'', sample_goals ''cy''],
       user_filters = [\<lparr> f_user_id = ''ann'', f_min_age = Some 18, f_max_age = Some 50,
                          f_max_distance_km = Some 30 \<rparr>],
       user_blocks = [],
       matches_table = [\<lparr> m_user1 = ''ann'', m_user2 = ''bob'', m_deleted_at = None \<rparr>],
       abuse_reports = [] \<rparr>"

definition sample_geodesic :: "real \<times> real \<Rightarrow> real \<times> real \<Rightarrow> real" where
  "sample_geodesic p q = 5"

text \<open>Two users with the same values, the same lifestyle and goals answers and the same
  coordinate, and no interests; and the same two with one shared interest.\<close>

definition twin_store :: store where
  "twin_store =
     \<lparr> users = [sample_user ''ann'', sample_user ''bob''],
       user_interests = [],
       user_locations = [\<lparr> l_user_id = ''ann'', latitude = Some 1, longitude = Some 1 \<rparr>,
                         \<lparr> l_user_id = ''bob'', latitude = Some 1, longitude = Some 1 \<rparr>],
       user_lifestyle = [sample_lifestyle ''ann'', sample_lifestyle ''bob''],
       user_goals = [sample_goals ''ann'', sample_goals ''bob''],
       user_filters = [],
       user_blocks = [],
       matches_table = [],
       abuse_reports = [] \<rparr>"

definition twin_store_chess :: store where
  "twin_store_chess = twin_store\<lparr> user_interests := [(''ann'', ''chess''), (''bob'', ''chess'')] \<rparr>"

text \<open>What the recommendation feed answers to Ann on the sample store.\<close>

definition sample_recommendation_page :: "recommendation_item page" where
  "sample_recommendation_page =
     \<lparr> p_data = [\<lparr> rc_id = ''cy'', rc_age = Some 30, rc_gender = None,
                    rc_compatibility_score = 0, rc_match_percentage = 0 \<rparr>],
       p_total = 1, p_limit = 20, p_offset = 0 \<rparr>"

section \<open>Properties of the geodistance\<close>

lemma haversine_a_sym: "haversine_a lat2 lon2 lat1 lon1 = haversine_a lat1 lon1 lat2 lon2"
proof -
  have d1: "radians (lat1 - lat2) = - radians (lat2 - lat1)"
    and d2: "radians (lon1 - lon2) = - radians (lon2 - lon1)"
    by (simp_all add: radians_def field_simps)
  show ?thesis
    unfolding haversine_a_def Let_def d1 d2
    by (simp add: mult.commute)
qed

lemma haversine_distance_sym:
  "haversine_distance lat2 lon2 lat1 lon1 = haversine_distance lat1 lon1 lat2 lon2"
  by (simp add: haversine_distance_def haversine_a_sym)

lemma haversine_a_same: "haversine_a lat lon lat lon = 0"
  by (simp add: haversine_a_def radians_def)

lemma haversine_distance_same: "haversine_distance lat lon lat lon = Data 0"
  by (simp add: haversine_distance_def haversine_a_same py_sqrt_def atan2_def)

lemma sin_sq_half: "(sin (x / 2))\<^sup>2 = (1 - cos x) / 2" for x :: real
  using cos_double_sin [of "x / 2"] by simp

text \<open>Over the reals the argument of both square roots lies in \<open>[0, 1]\<close>, for any
  latitudes and longitudes, so \<^verbatim>\<open>math.sqrt\<close> never raises here.\<close>

lemma haversine_a_bounds:
  "0 \<le> haversine_a lat1 lon1 lat2 lon2 \<and> haversine_a lat1 lon1 lat2 lon2 \<le> 1"
proof -
  define p where "p = radians lat1"
  define q where "q = radians lat2"
  define s where "s = (sin (radians (lon2 - lon1) / 2))\<^sup>2"
  define k where "k = cos p * cos q"
  have dl: "radians (lat2 - lat1) = q - p"
    by (simp add: radians_def p_def q_def algebra_simps diff_divide_distrib)
  have a: "haversine_a lat1 lon1 lat2 lon2 = (1 - cos (q - p)) / 2 + k * s"
    by (simp add: haversine_a_def Let_def dl sin_sq_half p_def q_def s_def k_def)
  have s0: "0 \<le> s" by (simp add: s_def)
  have s1: "s \<le> 1" unfolding s_def by (simp add: abs_square_le_1)
  have k: "k = (cos (q - p) + cos (q + p)) / 2"
    unfolding k_def using cos_times_cos [of q p] by (simp add: mult.commute)
  have c1: "- 1 \<le> cos (q - p)" "cos (q - p) \<le> 1" "- 1 \<le> cos (q + p)" "cos (q + p) \<le> 1"
    by simp_all
  show ?thesis
  proof (cases "0 \<le> k")
    case True
    then have "0 \<le> k * s" "k * s \<le> k" using s0 s1 by (simp_all add: mult_left_le)
    with k c1 have "0 \<le> (1 - cos (q - p)) / 2 + k * s" "(1 - cos (q - p)) / 2 + k * s \<le> 1"
      by argo+
    then show ?thesis unfolding a by simp
  next
    case False
    then have "k \<le> k * s" "k * s \<le> 0" using s0 s1
      by (simp_all add: mult_le_0_iff mult_left_le_one_le)
    with k c1 have "0 \<le> (1 - cos (q - p)) / 2 + k * s" "(1 - cos (q - p)) / 2 + k * s \<le> 1"
      by argo+
    then show ?thesis unfolding a by simp
  qed
qed

section \<open>Properties of the factor scores\<close>

lemma overlap_score_sym: "overlap_score B A w = overlap_score A B w"
  by (simp add: overlap_score_def Int_commute max.commute conj_commute)

lemma count_fields_sym: "count_fields r2 r1 fs mc = count_fields r1 r2 fs mc"
  by (induction r1 r2 fs mc rule: count_fields.induct) (auto simp: eq_commute)

lemma field_score_sym: "field_score b a fs w = field_score a b fs w"
  by (simp add: field_score_def count_fields_sym conj_commute)

lemma location_score_sym: "location_score st v u = location_score st u v"
  by (auto simp: location_score_def haversine_distance_sym [of _ _ _ _]
      split: response.splits option.splits)

lemma frac_mono:
  fixes s m :: nat
  assumes "s \<le> m" "0 < m"
  shows "real s / real m \<le> real (Suc s) / real (Suc m)"
proof -
  have "real s * real (Suc m) \<le> real (Suc s) * real m"
    using assms by (simp add: algebra_simps)
  then show ?thesis using assms by (simp add: frac_le_eq divide_le_eq field_simps)
qed

text \<open>
  Claim C7. The set-overlap score is monotonic in shared elements: for finite sets
  \<open>A\<close> and \<open>B\<close>, an element \<open>x\<close> in neither of them and a weight \<open>w \<ge> 0\<close>, the score of
  \<open>(A \<union> {x}, B \<union> {x})\<close> is at least the score of \<open>(A, B)\<close>.
\<close>

theorem overlap_score_mono_shared:
  assumes "finite A" "finite B" "x \<notin> A" "x \<notin> B" "0 \<le> w"
  shows "overlap_score A B w \<le> overlap_score (A \<union> {x}) (B \<union> {x}) w"
proof (cases "A = {} \<or> B = {}")
  case True
  then have "overlap_score A B w = 0" by (auto simp: overlap_score_def)
  moreover have "0 \<le> overlap_score (A \<union> {x}) (B \<union> {x}) w"
    using assms by (simp add: overlap_score_def Let_def)
  ultimately show ?thesis by simp
next
  case False
  let ?s = "card (A \<inter> B)" and ?m = "max (card A) (card B)"
  have "0 < card A" using False assms by (simp add: card_gt_0_iff)
  then have m: "0 < ?m" by simp
  have s: "?s \<le> ?m"
    using assms by (meson card_mono inf_le1 max.coboundedI1)
  have i: "(A \<union> {x}) \<inter> (B \<union> {x}) = insert x (A \<inter> B)" by auto
  have s': "card ((A \<union> {x}) \<inter> (B \<union> {x})) = Suc ?s"
    using assms by (simp add: i)
  have m': "max (card (A \<union> {x})) (card (B \<union> {x})) = Suc ?m"
    using assms by simp
  have "real ?s / real ?m * w \<le> real (Suc ?s) / real (Suc ?m) * w"
    using frac_mono [OF s m] assms(5) by (rule mult_right_mono)
  then show ?thesis
    using False m unfolding overlap_score_def Let_def s' m' by simp
qed

theorem overlap_score_mono_shared_witness:
  "finite {''hiking''} \<and> finite {''hiking'', ''chess''}
   \<and> ''jazz'' \<notin> {''hiking''} \<and> ''jazz'' \<notin> {''hiking'', ''chess''} \<and> (0::real) \<le> 40
   \<and> overlap_score {''hiking''} {''hiking'', ''chess''} 40
       \<le> overlap_score ({''hiking''} \<union> {''jazz''}) ({''hiking'', ''chess''} \<union> {''jazz''}) 40"
  using overlap_score_mono_shared [of "{''hiking''}" "{''hiking'', ''chess''}" "''jazz''" 40]
  by simp

section \<open>Symmetry of the scorer\<close>

text \<open>
  Claim C6. Swapping the two user IDs leaves both values returned by
  \<^verbatim>\<open>calculate_compatibility_score\<close> unchanged, for every store and every pair of IDs.
\<close>

theorem calculate_compatibility_score_symmetric:
  "calculate_compatibility_score st b a = calculate_compatibility_score st a b"
  unfolding calculate_compatibility_score_def Let_def
  by (simp split: response.split
      add: overlap_score_sym [of "interests_set st b" "interests_set st a"]
        field_score_sym location_score_sym [of st b a] overlap_score_sym)

section \<open>The scorer against the specification\<close>

lemma haversine_distance_Data:
  "haversine_distance lat1 lon1 lat2 lon2 = Data (haversine_km (lat1, lon1) (lat2, lon2))"
  using haversine_a_bounds [of lat1 lon1 lat2 lon2]
  by (simp add: haversine_distance_def haversine_km_def py_sqrt_def Let_def)

lemma overlap_score_spec: "overlap_score A B w = spec_overlap A B w"
  by (auto simp: overlap_score_def spec_overlap_def Let_def)

lemma location_score_spec:
  "location_score st u1 u2 = spec_proximity (coordinate st u1) (coordinate st u2)"
  by (simp add: location_score_def spec_proximity_def coordinate_def proximity_def
      haversine_distance_Data split: response.split option.split)

lemma count_fields_filter:
  "count_fields r1 r2 fs (m, c) =
     (m + length (filter (\<lambda>f. map_of r1 f = map_of r2 f)
                    (filter (\<lambda>f. map_of r1 f \<noteq> None \<and> map_of r2 f \<noteq> None) fs)),
      c + length (filter (\<lambda>f. map_of r1 f \<noteq> None \<and> map_of r2 f \<noteq> None) fs))"
  by (induction fs arbitrary: m c) auto

lemma field_score_spec: "field_score r1 r2 fs w = spec_field_equality (Some r1) (Some r2) fs w"
proof -
  let ?both = "\<lambda>f. map_of r1 f \<noteq> None \<and> map_of r2 f \<noteq> None"
  have hf: "(\<lambda>f. has_field (Some r1) f \<and> has_field (Some r2) f) = ?both"
    by (simp add: has_field_def)
  have fo: "(\<lambda>f. field_of (Some r1) f = field_of (Some r2) f) = (\<lambda>f. map_of r1 f = map_of r2 f)"
    by (simp add: field_of_def)
  have e: "filter ?both fs = []" if "r1 = [] \<or> r2 = []"
    using that by (auto simp: filter_empty_conv)
  have spec: "spec_field_equality (Some r1) (Some r2) fs w =
      (if filter ?both fs = [] then 0
       else real (length (filter (\<lambda>f. map_of r1 f = map_of r2 f) (filter ?both fs)))
            / real (length (filter ?both fs)) * w)"
    unfolding spec_field_equality_def hf fo Let_def ..
  show ?thesis
  proof (cases "r1 = [] \<or> r2 = []")
    case True
    then show ?thesis unfolding spec using e by (auto simp: field_score_def)
  next
    case False
    then show ?thesis unfolding spec by (simp add: field_score_def count_fields_filter)
  qed
qed

text \<open>Where the two profiles and the four lifestyle and goals rows exist, the scorer
  returns the sum of the five factors of the specification, twice.\<close>

lemma score_as_sum:
  assumes "user_by_id st user1_id = Data p1" and "user_by_id st user2_id = Data p2"
    and "lifestyle_single st user1_id = Data l1" and "lifestyle_single st user2_id = Data l2"
    and "goals_single st user1_id = Data g1" and "goals_single st user2_id = Data g2"
  shows "calculate_compatibility_score st user1_id user2_id =
           (spec_score st user1_id p1 user2_id p2, spec_score st user1_id p1 user2_id p2)"
  using assms
  by (simp add: calculate_compatibility_score_def Let_def overlap_score_spec
      location_score_spec field_score_spec lifestyle_fields_def goals_fields_def
      spec_score_def spec_interest_factor_def spec_values_factor_def spec_location_factor_def
      spec_lifestyle_factor_def spec_goals_factor_def record_of_def)

text \<open>Where one of the four rows is missing, its look-up raises outside block 3 and the
  outer handler returns \<open>(0, 0)\<close>, whatever the other factors are.\<close>

lemma single_Nil [simp]: "single [] = Raised"
  by (simp add: single_def)

lemma missing_row_zeroes_score:
  assumes "lifestyle_single st user1_id = Raised \<or> lifestyle_single st user2_id = Raised
         \<or> goals_single st user1_id = Raised \<or> goals_single st user2_id = Raised"
  shows "calculate_compatibility_score st user1_id user2_id = (0, 0)"
  using assms
  by (auto simp: calculate_compatibility_score_def Let_def split: response.splits)

lemma lifestyle_single_without: "lifestyle_single (without_lifestyle st u) u = Raised"
  by (simp add: lifestyle_single_def without_lifestyle_def)

lemma goals_single_without: "goals_single (without_goals st u) u = Raised"
  by (simp add: goals_single_def without_goals_def)

lemma score_without_lifestyle:
  assumes "u = user1_id \<or> u = user2_id"
  shows "calculate_compatibility_score (without_lifestyle st u) user1_id user2_id = (0, 0)"
  using assms lifestyle_single_without [of st u]
  by (intro missing_row_zeroes_score) auto

lemma score_without_goals:
  assumes "u = user1_id \<or> u = user2_id"
  shows "calculate_compatibility_score (without_goals st u) user1_id user2_id = (0, 0)"
  using assms goals_single_without [of st u]
  by (intro missing_row_zeroes_score) auto

text \<open>Missing interests and a missing location row are handled as the specification
  says: that factor is 0 and the four others are as before.\<close>

lemma spec_overlap_empty [simp]: "spec_overlap {} B w = 0" "spec_overlap A {} w = 0"
  by (simp_all add: spec_overlap_def)

lemma spec_proximity_None [simp]: "spec_proximity None c = 0" "spec_proximity c None = 0"
  by (simp_all add: spec_proximity_def split: option.split)

lemma spec_field_equality_None [simp]:
  "spec_field_equality None b fs w = 0" "spec_field_equality a None fs w = 0"
  by (simp_all add: spec_field_equality_def has_field_def)

lemma interests_set_without:
  "interests_set (without_interests st u) v = (if v = u then {} else interests_set st v)"
  by (auto simp: interests_set_def without_interests_def)

lemma coordinate_without:
  "coordinate (without_location st u) v = (if v = u then None else coordinate st v)"
proof -
  have "filter (\<lambda>r. l_user_id r = v) (filter (\<lambda>r. l_user_id r \<noteq> u) (user_locations st))
        = (if v = u then [] else filter (\<lambda>r. l_user_id r = v) (user_locations st))"
    by (auto simp: filter_empty_conv intro: filter_cong)
  then show ?thesis
    by (simp add: coordinate_def location_single_def without_location_def)
qed

lemma score_without_interests:
  assumes "user_by_id st user1_id = Data p1" and "user_by_id st user2_id = Data p2"
    and "lifestyle_single st user1_id = Data l1" and "lifestyle_single st user2_id = Data l2"
    and "goals_single st user1_id = Data g1" and "goals_single st user2_id = Data g2"
    and "u = user1_id \<or> u = user2_id"
  shows "calculate_compatibility_score (without_interests st u) user1_id user2_id =
    (let total = 0 + spec_values_factor p1 p2 + spec_location_factor st user1_id user2_id
               + spec_lifestyle_factor st user1_id user2_id + spec_goals_factor st user1_id user2_id
     in (total, total))"
proof -
  have k: "user_by_id (without_interests st u) = user_by_id st"
    "lifestyle_single (without_interests st u) = lifestyle_single st"
    "goals_single (without_interests st u) = goals_single st"
    "coordinate (without_interests st u) = coordinate st"
    by (simp_all add: fun_eq_iff without_interests_def user_by_id_def lifestyle_single_def
        goals_single_def coordinate_def location_single_def)
  have i: "spec_interest_factor (without_interests st u) user1_id user2_id = 0"
    using assms(7) by (auto simp: spec_interest_factor_def interests_set_without)
  show ?thesis
    using score_as_sum [of "without_interests st u" user1_id p1 user2_id p2 l1 l2 g1 g2] assms(1-6)
    by (simp add: k i spec_score_def spec_location_factor_def spec_lifestyle_factor_def
        spec_goals_factor_def Let_def)
qed

lemma score_without_location:
  assumes "user_by_id st user1_id = Data p1" and "user_by_id st user2_id = Data p2"
    and "lifestyle_single st user1_id = Data l1" and "lifestyle_single st user2_id = Data l2"
    and "goals_single st user1_id = Data g1" and "goals_single st user2_id = Data g2"
    and "u = user1_id \<or> u = user2_id"
  shows "calculate_compatibility_score (without_location st u) user1_id user2_id =
    (let total = spec_interest_factor st user1_id user2_id + spec_values_factor p1 p2 + 0
               + spec_lifestyle_factor st user1_id user2_id + spec_goals_factor st user1_id user2_id
     in (total, total))"
proof -
  have k: "user_by_id (without_location st u) = user_by_id st"
    "lifestyle_single (without_location st u) = lifestyle_single st"
    "goals_single (without_location st u) = goals_single st"
    "interests_set (without_location st u) = interests_set st"
    by (simp_all add: fun_eq_iff without_location_def user_by_id_def lifestyle_single_def
        goals_single_def interests_set_def)
  have i: "spec_location_factor (without_location st u) user1_id user2_id = 0"
    using assms(7) by (auto simp: spec_location_factor_def coordinate_without)
  show ?thesis
    using score_as_sum [of "without_location st u" user1_id p1 user2_id p2 l1 l2 g1 g2] assms(1-6)
    by (simp add: k i spec_score_def spec_interest_factor_def spec_lifestyle_factor_def
        spec_goals_factor_def Let_def)
qed

section \<open>The scorer on the sample stores\<close>

lemma haversine_km_same: "haversine_km p p = 0"
  by (simp add: haversine_km_def haversine_a_same atan2_def)

lemma spec_overlap_same:
  assumes "finite A" "A \<noteq> {}" shows "spec_overlap A A w = w"
proof -
  have "0 < card A" using assms by (simp add: card_gt_0_iff)
  then show ?thesis using assms by (simp add: spec_overlap_def)
qed

lemma spec_proximity_same: "spec_proximity (Some p) (Some p) = 15"
  by (simp add: spec_proximity_def haversine_km_same)

lemma sample_profiles:
  "user_by_id sample_store ''ann'' = Data (sample_user ''ann'')"
  "user_by_id sample_store ''bob'' = Data (sample_user ''bob'')"
  "user_by_id sample_store ''cy'' = Data (sample_user ''cy'')"
  by (simp_all add: user_by_id_def single_def sample_store_def sample_user_def)

lemma sample_lifestyle_rows:
  "lifestyle_single sample_store ''ann'' = Data (sample_lifestyle ''ann'')"
  "lifestyle_single sample_store ''bob'' = Data (sample_lifestyle ''bob'')"
  "lifestyle_single sample_store ''cy'' = Raised"
  by (simp_all add: lifestyle_single_def single_def sample_store_def sample_lifestyle_def
      owned_by_def)

lemma sample_goals_rows:
  "goals_single sample_store ''ann'' = Data (sample_goals ''ann'')"
  "goals_single sample_store ''bob'' = Raised"
  "goals_single sample_store ''cy'' = Data (sample_goals ''cy'')"
  by (simp_all add: goals_single_def single_def sample_store_def sample_goals_def owned_by_def)

lemma sample_locations:
  "location_single sample_store ''ann'' = Data \<lparr> l_user_id = ''ann'', latitude = Some 1, longitude = Some 1 \<rparr>"
  "location_single sample_store ''bob'' = Data \<lparr> l_user_id = ''bob'', latitude = Some 1, longitude = Some 1 \<rparr>"
  "location_single sample_store ''cy'' = Data \<lparr> l_user_id = ''cy'', latitude = Some 1, longitude = Some 1 \<rparr>"
  "location_single sample_store ''dee'' = Raised"
  by (simp_all add: location_single_def single_def sample_store_def)

lemma sample_interest_factor:
  "spec_interest_factor sample_store ''ann'' ''bob'' = 40"
  "spec_interest_factor sample_store ''ann'' ''cy'' = 40"
  by (simp_all add: spec_interest_factor_def spec_overlap_def interests_set_def sample_store_def)

lemma sample_values_factor: "spec_values_factor (sample_user i) (sample_user j) = 30"
  by (simp add: spec_values_factor_def spec_overlap_def values_set_def sample_user_def)

lemma sample_location_factor:
  "spec_location_factor sample_store ''ann'' ''bob'' = 15"
  "spec_location_factor sample_store ''ann'' ''cy'' = 15"
  by (simp_all add: spec_location_factor_def coordinate_def sample_locations
      spec_proximity_same)

lemma sample_lifestyle_factor:
  "spec_lifestyle_factor sample_store ''ann'' ''bob'' = 10"
  "spec_lifestyle_factor sample_store ''ann'' ''cy'' = 0"
  by (simp_all add: spec_lifestyle_factor_def sample_lifestyle_rows record_of_def
      spec_field_equality_def has_field_def field_of_def sample_lifestyle_def)

lemma sample_goals_factor:
  "spec_goals_factor sample_store ''ann'' ''bob'' = 0"
  "spec_goals_factor sample_store ''ann'' ''cy'' = 5"
  by (simp_all add: spec_goals_factor_def sample_goals_rows record_of_def
      spec_field_equality_def has_field_def field_of_def sample_goals_def)

lemma score_ann_bob: "calculate_compatibility_score sample_store ''ann'' ''bob'' = (0, 0)"
  by (rule missing_row_zeroes_score) (simp add: sample_goals_rows)

lemma score_ann_cy: "calculate_compatibility_score sample_store ''ann'' ''cy'' = (0, 0)"
  by (rule missing_row_zeroes_score) (simp add: sample_lifestyle_rows)

text \<open>
  Claim C1, at a failing input. Ann and Bob both have a profile record, and the five
  factors of the claim add up to 95 (40 for the interests, 30 for the values, 15 for the
  location, 10 for the lifestyle and 0 for the goals, which Bob has not recorded). The
  scorer returns \<open>(0, 0)\<close>: the look-up of Bob's goals raises outside block 3.
\<close>

theorem score_is_not_the_sum_without_goals_row:
  "user_by_id sample_store ''ann'' = Data (sample_user ''ann'')
   \<and> user_by_id sample_store ''bob'' = Data (sample_user ''bob'')
   \<and> spec_score sample_store ''ann'' (sample_user ''ann'') ''bob'' (sample_user ''bob'') = 95
   \<and> calculate_compatibility_score sample_store ''ann'' ''bob'' = (0, 0)"
  by (simp add: sample_profiles score_ann_bob spec_score_def sample_interest_factor
      sample_values_factor sample_location_factor sample_lifestyle_factor sample_goals_factor)

text \<open>
  Claim C3, at a failing input. Ann and Cy both have a profile record and Cy has no
  lifestyle record. The interests, the values, the location and the goals of the two
  contribute 40, 30, 15 and 5, and the scorer returns \<open>(0, 0)\<close> instead of 90: the
  absence of the lifestyle record takes the other factors with it.
\<close>

theorem absent_lifestyle_record_zeroes_every_factor:
  "user_by_id sample_store ''ann'' = Data (sample_user ''ann'')
   \<and> user_by_id sample_store ''cy'' = Data (sample_user ''cy'')
   \<and> record_of (lifestyle_single sample_store ''cy'') = None
   \<and> spec_interest_factor sample_store ''ann'' ''cy'' = 40
   \<and> spec_values_factor (sample_user ''ann'') (sample_user ''cy'') = 30
   \<and> spec_location_factor sample_store ''ann'' ''cy'' = 15
   \<and> spec_goals_factor sample_store ''ann'' ''cy'' = 5
   \<and> calculate_compatibility_score sample_store ''ann'' ''cy'' = (0, 0)"
  by (simp add: sample_profiles score_ann_cy sample_interest_factor sample_values_factor
      sample_location_factor sample_goals_factor sample_lifestyle_rows record_of_def)

section \<open>Users with identical profiles\<close>

lemma spec_field_equality_agree:
  assumes "same_fields (Some l1) (Some l2) fs" and "\<exists>f \<in> set fs. map_of l1 f \<noteq> None"
  shows "spec_field_equality (Some l1) (Some l2) fs w = w"
proof -
  have eq: "map_of l1 f = map_of l2 f" if "f \<in> set fs" for f
    using assms(1) that by (simp add: same_fields_def field_of_def)
  have c: "filter (\<lambda>f. has_field (Some l1) f \<and> has_field (Some l2) f) fs
           = filter (\<lambda>f. map_of l1 f \<noteq> None) fs"
    by (rule filter_cong) (auto simp: has_field_def eq)
  have ne: "filter (\<lambda>f. map_of l1 f \<noteq> None) fs \<noteq> []"
    using assms(2) by (auto simp: filter_empty_conv)
  have m: "filter (\<lambda>f. field_of (Some l1) f = field_of (Some l2) f)
             (filter (\<lambda>f. map_of l1 f \<noteq> None) fs) = filter (\<lambda>f. map_of l1 f \<noteq> None) fs"
    by (rule filter_True) (simp add: field_of_def eq)
  show ?thesis
    unfolding spec_field_equality_def Let_def c m using ne by simp
qed

text \<open>
  Claim C5, as amended. For two users whose profiles exist, with identical non-empty
  interest sets, identical non-empty values sets, lifestyle records and goals records that
  exist for both, agree on every compared field and hold at least one of them, and the
  same recorded coordinate, the scorer returns 100 for both outputs.
\<close>

theorem identical_profiles_score:
  assumes "identical_profiles st a b"
    and "interests_set st a \<noteq> {}"
    and "user_by_id st a = Data p" and "values_set p \<noteq> {}"
    and "lifestyle_single st a = Data l1" and "lifestyle_single st b = Data l2"
    and "\<exists>f \<in> set lifestyle_fields. map_of l1 f \<noteq> None"
    and "goals_single st a = Data g1" and "goals_single st b = Data g2"
    and "\<exists>f \<in> set goals_fields. map_of g1 f \<noteq> None"
  shows "calculate_compatibility_score st a b = (100, 100)"
proof -
  obtain q where q: "user_by_id st b = Data q"
    using assms(1,3) by (auto simp: identical_profiles_def split: response.splits)
  have ip: "interests_set st a = interests_set st b \<and> values_set p = values_set q
      \<and> same_fields (record_of (lifestyle_single st a)) (record_of (lifestyle_single st b))
            lifestyle_fields
      \<and> same_fields (record_of (goals_single st a)) (record_of (goals_single st b)) goals_fields
      \<and> coordinate st a \<noteq> None \<and> coordinate st a = coordinate st b"
    using assms(1)
    unfolding identical_profiles_def assms(3) q prod.case response.case .
  have same: "interests_set st b = interests_set st a" "values_set q = values_set p"
    "coordinate st b = coordinate st a"
    using ip by simp_all
  have sl: "same_fields (Some l1) (Some l2) lifestyle_fields"
    and sg: "same_fields (Some g1) (Some g2) goals_fields"
    using ip by (simp_all add: assms(5,6,8,9) record_of_def)
  from ip obtain c where c: "coordinate st a = Some c" by blast
  have fin: "finite (interests_set st a)" "finite (values_set p)"
    by (simp_all add: interests_set_def values_set_def split: option.split)
  have "spec_score st a p b q = 100"
    using assms(2,4) fin spec_field_equality_agree [OF sl assms(7)]
      spec_field_equality_agree [OF sg assms(10)]
    by (simp add: spec_score_def spec_interest_factor_def spec_values_factor_def
        spec_location_factor_def spec_lifestyle_factor_def spec_goals_factor_def same c
        spec_overlap_same spec_proximity_same assms(5,6,8,9) record_of_def
        lifestyle_fields_def goals_fields_def)
  then show ?thesis
    using score_as_sum [OF assms(3) q assms(5,6,8,9)] by simp
qed

lemma twin_rows:
  "user_by_id twin_store ''ann'' = Data (sample_user ''ann'')"
  "user_by_id twin_store ''bob'' = Data (sample_user ''bob'')"
  "lifestyle_single twin_store ''ann'' = Data (sample_lifestyle ''ann'')"
  "lifestyle_single twin_store ''bob'' = Data (sample_lifestyle ''bob'')"
  "goals_single twin_store ''ann'' = Data (sample_goals ''ann'')"
  "goals_single twin_store ''bob'' = Data (sample_goals ''bob'')"
  "coordinate twin_store ''ann'' = Some (1, 1)"
  "coordinate twin_store ''bob'' = Some (1, 1)"
  "interests_set twin_store ''ann'' = {}"
  "interests_set twin_store ''bob'' = {}"
  by (simp_all add: twin_store_def user_by_id_def lifestyle_single_def goals_single_def
      coordinate_def location_single_def single_def interests_set_def
      sample_user_def sample_lifestyle_def sample_goals_def owned_by_def)

lemma twin_chess_rows:
  "user_by_id twin_store_chess ''ann'' = Data (sample_user ''ann'')"
  "user_by_id twin_store_chess ''bob'' = Data (sample_user ''bob'')"
  "lifestyle_single twin_store_chess ''ann'' = Data (sample_lifestyle ''ann'')"
  "lifestyle_single twin_store_chess ''bob'' = Data (sample_lifestyle ''bob'')"
  "goals_single twin_store_chess ''ann'' = Data (sample_goals ''ann'')"
  "goals_single twin_store_chess ''bob'' = Data (sample_goals ''bob'')"
  "coordinate twin_store_chess ''ann'' = Some (1, 1)"
  "coordinate twin_store_chess ''bob'' = Some (1, 1)"
  "interests_set twin_store_chess ''ann'' = {''chess''}"
  "interests_set twin_store_chess ''bob'' = {''chess''}"
  by (simp_all add: twin_store_chess_def twin_store_def user_by_id_def lifestyle_single_def
      goals_single_def coordinate_def location_single_def single_def interests_set_def
      sample_user_def sample_lifestyle_def sample_goals_def owned_by_def)

lemma sample_values_same: "values_set (sample_user i) = {''honesty''}"
  by (simp add: values_set_def sample_user_def)

lemma twin_same_fields:
  "same_fields (Some (sample_lifestyle ''ann'')) (Some (sample_lifestyle ''bob'')) lifestyle_fields"
  "same_fields (Some (sample_goals ''ann'')) (Some (sample_goals ''bob'')) goals_fields"
  by (simp_all add: same_fields_def field_of_def sample_lifestyle_def sample_goals_def
      lifestyle_fields_def goals_fields_def)

text \<open>
  Claim C5 as stated fails where the identical sets are empty: the twins have identical
  (empty) interest sets, identical values, the same lifestyle and goals answers and the
  same coordinate, and score 60.
\<close>

theorem identical_profiles_score_counterexample:
  "identical_profiles twin_store ''ann'' ''bob''
   \<and> calculate_compatibility_score twin_store ''ann'' ''bob'' = (60, 60)"
proof -
  have ip: "identical_profiles twin_store ''ann'' ''bob''"
    by (simp add: identical_profiles_def twin_rows twin_same_fields record_of_def
        sample_values_same)
  have l: "spec_lifestyle_factor twin_store ''ann'' ''bob'' = 10"
    using spec_field_equality_agree [OF twin_same_fields(1), of 10]
    by (simp add: spec_lifestyle_factor_def twin_rows record_of_def lifestyle_fields_def
        sample_lifestyle_def)
  have g: "spec_goals_factor twin_store ''ann'' ''bob'' = 5"
    using spec_field_equality_agree [OF twin_same_fields(2), of 5]
    by (simp add: spec_goals_factor_def twin_rows record_of_def goals_fields_def
        sample_goals_def)
  have "spec_score twin_store ''ann'' (sample_user ''ann'') ''bob'' (sample_user ''bob'') = 60"
    by (simp add: spec_score_def spec_interest_factor_def sample_values_factor
        spec_location_factor_def l g twin_rows spec_proximity_same)
  then show ?thesis
    using ip score_as_sum [OF twin_rows(1-6)] by simp
qed

theorem identical_profiles_score_witness:
  "identical_profiles twin_store_chess ''ann'' ''bob''
   \<and> interests_set twin_store_chess ''ann'' \<noteq> {}
   \<and> user_by_id twin_store_chess ''ann'' = Data (sample_user ''ann'')
   \<and> values_set (sample_user ''ann'') \<noteq> {}
   \<and> lifestyle_single twin_store_chess ''ann'' = Data (sample_lifestyle ''ann'')
   \<and> lifestyle_single twin_store_chess ''bob'' = Data (sample_lifestyle ''bob'')
   \<and> (\<exists>f \<in> set lifestyle_fields. map_of (sample_lifestyle ''ann'') f \<noteq> None)
   \<and> goals_single twin_store_chess ''ann'' = Data (sample_goals ''ann'')
   \<and> goals_single twin_store_chess ''bob'' = Data (sample_goals ''bob'')
   \<and> (\<exists>f \<in> set goals_fields. map_of (sample_goals ''ann'') f \<noteq> None)
   \<and> calculate_compatibility_score twin_store_chess ''ann'' ''bob'' = (100, 100)"
proof -
  have h1: "identical_profiles twin_store_chess ''ann'' ''bob''"
    by (simp add: identical_profiles_def twin_chess_rows twin_same_fields record_of_def
        sample_values_same)
  have h2: "interests_set twin_store_chess ''ann'' \<noteq> {}"
    by (simp add: twin_chess_rows)
  have h3: "user_by_id twin_store_chess ''ann'' = Data (sample_user ''ann'')"
    by (simp add: twin_chess_rows)
  have h4: "values_set (sample_user ''ann'') \<noteq> {}"
    by (simp add: values_set_def sample_user_def)
  have h5: "lifestyle_single twin_store_chess ''ann'' = Data (sample_lifestyle ''ann'')"
    and h6: "lifestyle_single twin_store_chess ''bob'' = Data (sample_lifestyle ''bob'')"
    and h8: "goals_single twin_store_chess ''ann'' = Data (sample_goals ''ann'')"
    and h9: "goals_single twin_store_chess ''bob'' = Data (sample_goals ''bob'')"
    by (simp_all add: twin_chess_rows)
  have h7: "\<exists>f \<in> set lifestyle_fields. map_of (sample_lifestyle ''ann'') f \<noteq> None"
    by (simp add: lifestyle_fields_def sample_lifestyle_def)
  have h10: "\<exists>f \<in> set goals_fields. map_of (sample_goals ''ann'') f \<noteq> None"
    by (simp add: goals_fields_def sample_goals_def)
  show ?thesis
    using identical_profiles_score [OF h1 h2 h3 h4 h5 h6 h7 h8 h9 h10]
      h1 h2 h3 h4 h5 h6 h7 h8 h9 h10
    by blast
qed

section \<open>Properties of the discovery feed\<close>

text \<open>The endpoint answers every request with an error: 422 for a parameter out of
  range, and otherwise 500, from the look-up of a viewer without a location row, from
  \<^verbatim>\<open>float(None)\<close> or from the \<^verbatim>\<open>extend\<close> call on line 63.\<close>

lemma get_discovery_never_returns_page:
  "get_discovery st geodesic user_id distance_km limit offset min_age max_age sort_by \<noteq> Inr pg"
  by (simp add: get_discovery_def split: response.split option.split sum.split)

lemma get_discovery_without_location_row:
  assumes "discovery_query_valid distance_km limit offset min_age max_age sort_by"
    and "location_single st user_id = Raised"
  shows "get_discovery st geodesic user_id distance_km limit offset min_age max_age sort_by
         = Inl (HTTPException 500 (Str ClientError))"
  using assms by (simp add: get_discovery_def)

lemma get_discovery_with_location_row:
  assumes "discovery_query_valid distance_km limit offset min_age max_age sort_by"
    and "location_single st user_id = Data user_loc"
    and "latitude user_loc = Some user_lat" and "longitude user_loc = Some user_lon"
    and "discovery_candidates geodesic user_id user_lat user_lon distance_km (all_users st)
         = Inr candidates"
  shows "get_discovery st geodesic user_id distance_km limit offset min_age max_age sort_by
         = Inl (HTTPException 500 (Str AttributeError))"
  using assms by (simp add: get_discovery_def)

section \<open>Properties of the recommendation feed\<close>

lemma set_py_slice: "set (py_slice xs lo hi) \<subseteq> set xs"
  by (auto simp: py_slice_def Let_def dest: in_set_takeD in_set_dropD)

lemma length_py_slice_page:
  assumes "0 \<le> offset" "1 \<le> limit"
  shows "int (length (py_slice xs offset (offset + limit))) =
     (if offset < int (length xs) then min limit (int (length xs) - offset) else 0)"
  using assms by (auto simp: py_slice_def slice_bound_def Let_def min_def)

lemma recommendation_candidates_filter:
  assumes "recommendation_candidates hav ex filters user_lat user_lon xs = Inr cs"
  shows "cs = filter (\<lambda>usr. recommendation_keeps hav ex filters user_lat user_lon usr = Inr True) xs"
  using assms
proof (induction xs arbitrary: cs)
  case Nil
  then show ?case by simp
next
  case (Cons usr rest)
  then show ?case by (auto split: sum.splits if_splits)
qed

lemma recommendation_keeps_excluded:
  "recommendation_keeps hav ex filters user_lat user_lon usr = Inr True \<Longrightarrow> u_id usr \<notin> ex"
  by (auto simp: recommendation_keeps_def split: if_splits)

lemma rc_id_recommendation_entry [simp]: "rc_id (recommendation_entry st u c) = u_id c"
  by (simp add: recommendation_entry_def split: prod.split)

lemma get_user_recommendations_InrE:
  assumes "get_user_recommendations st hav user_id limit offset = Inr pg"
  obtains user_lat user_lon filters cs where
    "recommendations_query_valid limit offset"
    "coordinate st user_id = Some (user_lat, user_lon)"
    "filters_single st user_id = Data filters"
    "recommendation_candidates hav
       (blocked_ids st user_id \<union> router_matched_ids st user_id \<union> reported_ids st user_id
        \<union> {user_id}) filters user_lat user_lon (all_users st) = Inr cs"
    "pg = \<lparr> p_data = py_slice (sort_key (\<lambda>x. - rc_compatibility_score x)
                        (map (recommendation_entry st user_id) cs)) offset (offset + limit),
            p_total = length cs, p_limit = limit, p_offset = offset \<rparr>"
  using assms
  by (auto simp: get_user_recommendations_def coordinate_def Let_def
      split: if_splits response.splits option.splits sum.splits)

lemma get_user_recommendations_success:
  assumes "recommendations_query_valid limit offset"
    "coordinate st user_id = Some (user_lat, user_lon)"
    "filters_single st user_id = Data filters"
    "recommendation_candidates hav
       (blocked_ids st user_id \<union> router_matched_ids st user_id \<union> reported_ids st user_id
        \<union> {user_id}) filters user_lat user_lon (all_users st) = Inr cs"
  shows "get_user_recommendations st hav user_id limit offset =
     Inr \<lparr> p_data = py_slice (sort_key (\<lambda>x. - rc_compatibility_score x)
                        (map (recommendation_entry st user_id) cs)) offset (offset + limit),
            p_total = length cs, p_limit = limit, p_offset = offset \<rparr>"
  using assms
  by (auto simp: get_user_recommendations_def coordinate_def Let_def
      split: if_splits response.splits option.splits sum.splits)

text \<open>Where the recommendation feed returns a page, the total and the page are as the
  specification says.\<close>

lemma recommendation_pagination:
  assumes "get_user_recommendations st hav user_id limit offset = Inr pg"
  shows "p_total pg = length (filter (recommendation_survives st hav user_id) (all_users st))"
    and "int (length (p_data pg)) =
           (if offset < int (p_total pg) then min limit (int (p_total pg) - offset) else 0)"
    and "\<forall>offset' \<ge> int (p_total pg).
           get_user_recommendations st hav user_id limit offset'
           = Inr \<lparr> p_data = [], p_total = p_total pg, p_limit = limit, p_offset = offset' \<rparr>"
proof -
  let ?ex = "blocked_ids st user_id \<union> router_matched_ids st user_id \<union> reported_ids st user_id
        \<union> {user_id}"
  from assms obtain user_lat user_lon filters cs where
    v: "recommendations_query_valid limit offset"
    and c: "coordinate st user_id = Some (user_lat, user_lon)"
    and f: "filters_single st user_id = Data filters"
    and d: "recommendation_candidates hav ?ex filters user_lat user_lon (all_users st) = Inr cs"
    and pg: "pg = \<lparr> p_data = py_slice (sort_key (\<lambda>x. - rc_compatibility_score x)
                        (map (recommendation_entry st user_id) cs)) offset (offset + limit),
            p_total = length cs, p_limit = limit, p_offset = offset \<rparr>"
    by (rule get_user_recommendations_InrE)
  have lo: "0 \<le> offset" "1 \<le> limit" using v by (simp_all add: recommendations_query_valid_def)
  have sv: "recommendation_survives st hav user_id =
      (\<lambda>usr. recommendation_keeps hav ?ex filters user_lat user_lon usr = Inr True)"
    by (simp add: recommendation_survives_def c f fun_eq_iff)
  show "p_total pg = length (filter (recommendation_survives st hav user_id) (all_users st))"
    unfolding pg sv using recommendation_candidates_filter [OF d] by simp
  show "int (length (p_data pg)) =
           (if offset < int (p_total pg) then min limit (int (p_total pg) - offset) else 0)"
    unfolding pg by (simp add: length_py_slice_page [OF lo])
  show "\<forall>offset' \<ge> int (p_total pg).
           get_user_recommendations st hav user_id limit offset'
           = Inr \<lparr> p_data = [], p_total = p_total pg, p_limit = limit, p_offset = offset' \<rparr>"
  proof (intro allI impI)
    fix offset' assume o: "int (p_total pg) \<le> offset'"
    then have o0: "0 \<le> offset'" by simp
    have v': "recommendations_query_valid limit offset'"
      using v o0 by (simp add: recommendations_query_valid_def)
    have "length (py_slice (sort_key (\<lambda>x. - rc_compatibility_score x)
                        (map (recommendation_entry st user_id) cs)) offset' (offset' + limit)) = 0"
      using length_py_slice_page [OF o0 lo(2), of "sort_key (\<lambda>x. - rc_compatibility_score x)
                        (map (recommendation_entry st user_id) cs)"] o
      unfolding pg by simp
    then show "get_user_recommendations st hav user_id limit offset'
           = Inr \<lparr> p_data = [], p_total = p_total pg, p_limit = limit, p_offset = offset' \<rparr>"
      unfolding get_user_recommendations_success [OF v' c f d] pg by simp
  qed
qed

lemma router_matched_ids_spec: "router_matched_ids st v = spec_match_partners st v"
  by (auto simp: router_matched_ids_def spec_match_partners_def matched_rows_def image_iff)

text \<open>The recommendation router keeps the exclusion set out of its pages.\<close>

lemma get_user_recommendations_excludes:
  assumes "get_user_recommendations st hav user_id limit offset = Inr pg"
    and "x \<in> set (p_data pg)"
  shows "rc_id x \<notin> spec_exclusion_set st user_id"
proof -
  let ?ex = "blocked_ids st user_id \<union> router_matched_ids st user_id \<union> reported_ids st user_id
        \<union> {user_id}"
  from assms(1) obtain user_lat user_lon filters cs where
    d: "recommendation_candidates hav ?ex filters user_lat user_lon (all_users st) = Inr cs"
    and pg: "pg = \<lparr> p_data = py_slice (sort_key (\<lambda>x. - rc_compatibility_score x)
                        (map (recommendation_entry st user_id) cs)) offset (offset + limit),
            p_total = length cs, p_limit = limit, p_offset = offset \<rparr>"
    by (rule get_user_recommendations_InrE)
  from assms(2) have "x \<in> set (map (recommendation_entry st user_id) cs)"
    unfolding pg using set_py_slice by fastforce
  then obtain c where c: "c \<in> set cs" and x: "x = recommendation_entry st user_id c" by auto
  from c have "recommendation_keeps hav ?ex filters user_lat user_lon c = Inr True"
    unfolding recommendation_candidates_filter [OF d] by simp
  then have "u_id c \<notin> ?ex" by (rule recommendation_keeps_excluded)
  then show ?thesis
    unfolding x by (simp add: spec_exclusion_set_def router_matched_ids_spec)
qed

lemma get_user_recommendations_without_location_row:
  assumes "recommendations_query_valid limit offset"
    and "location_single st user_id = Raised"
  shows "get_user_recommendations st hav user_id limit offset
         = Inl (HTTPException 500 (Str ClientError))"
  using assms by (simp add: get_user_recommendations_def)

text \<open>A pool row without a latitude or a longitude is never measured against the viewer:
  whether it is kept does not depend on the viewer's coordinate.\<close>

lemma recommendation_keeps_without_coordinate:
  assumes "u_latitude usr = None \<or> u_longitude usr = None"
  shows "recommendation_keeps hav ex filters user_lat user_lon usr
         = recommendation_keeps hav ex filters user_lat' user_lon' usr"
  using assms
  by (auto simp: recommendation_keeps_def truthy_def split: sum.splits bool.splits option.splits)

section \<open>The service function\<close>

text \<open>The condition of the comprehension on line 161 rejects every row that the query
  returns, so the matched set of \<^verbatim>\<open>get_recommendations\<close> is always empty.\<close>

lemma service_matched_ids_empty: "service_matched_ids st user_id = {}"
  by (auto simp: service_matched_ids_def matched_rows_def)

section \<open>The feeds on the sample store\<close>

lemma py_round_zero: "py_round 0 n = 0"
  by (simp add: py_round_def round_half_even_def)

lemma py_round_5_1: "py_round 5 (Suc 0) = 5"
  by (simp add: py_round_def round_half_even_def)

lemma sample_pool:
  "all_users sample_store = [sample_user ''ann'', sample_user ''bob'', sample_user ''cy'']"
  by (simp add: all_users_def sample_store_def sample_user_def)

lemma sample_filters:
  "filters_single sample_store ''ann'' =
     Data \<lparr> f_user_id = ''ann'', f_min_age = Some 18, f_max_age = Some 50,
            f_max_distance_km = Some 30 \<rparr>"
  by (simp add: filters_single_def single_def sample_store_def)

lemma sample_discovery:
  "get_discovery sample_store sample_geodesic ''ann'' 20 20 offset 18 50 ''distance''
     = (if 0 \<le> offset then Inl (HTTPException 500 (Str AttributeError))
        else Inl RequestValidationError)"
proof -
  have cands: "discovery_candidates sample_geodesic ''ann'' 1 1 20 (all_users sample_store) =
     Inr [\<lparr> c_id = ''bob'', c_email = ''bob@example.org'', c_traits = [],
             c_values = [''honesty''], c_green_flags = [], c_red_flags = [],
             c_lifestyle = [], c_distance_km = 5, c_created_at = ''2024-01-01'' \<rparr>,
          \<lparr> c_id = ''cy'', c_email = ''cy@example.org'', c_traits = [],
             c_values = [''honesty''], c_green_flags = [], c_red_flags = [],
             c_lifestyle = [], c_distance_km = 5, c_created_at = ''2024-01-01'' \<rparr>]"
    by (simp add: sample_pool sample_user_def sample_geodesic_def or_empty_def py_round_5_1)
  show ?thesis
    by (simp add: get_discovery_def discovery_query_valid_def sample_locations cands)
qed

lemma sample_recommendations:
  "get_user_recommendations sample_store haversine_distance ''ann'' 20 0 =
     Inr sample_recommendation_page"
proof -
  have sets: "blocked_ids sample_store ''ann'' = {}" "reported_ids sample_store ''ann'' = {}"
    "router_matched_ids sample_store ''ann'' = {''bob''}"
    by (simp_all add: blocked_ids_def reported_ids_def router_matched_ids_def matched_rows_def
        sample_store_def)
  have cands: "recommendation_candidates haversine_distance {''ann'', ''bob''}
      \<lparr> f_user_id = ''ann'', f_min_age = Some 18, f_max_age = Some 50,
         f_max_distance_km = Some 30 \<rparr> 1 1 (all_users sample_store)
      = Inr [sample_user ''cy'']"
    by (simp add: sample_pool recommendation_keeps_def sample_user_def truthy_def
        age_in_range_def haversine_distance_same)
  show ?thesis
    by (simp add: get_user_recommendations_def recommendations_query_valid_def sample_locations
        sample_filters sets cands sample_recommendation_page_def Let_def
        recommendation_entry_def score_ann_cy py_round_zero py_slice_def slice_bound_def
        sample_user_def)
qed

lemma sample_service:
  "get_recommendations sample_store ''ann'' 20 0 =
     [\<lparr> sr_id = ''bob'', sr_score = 0, sr_match_percentage = 0 \<rparr>,
      \<lparr> sr_id = ''cy'', sr_score = 0, sr_match_percentage = 0 \<rparr>]"
proof -
  have sets: "blocked_ids sample_store ''ann'' = {}" "reported_ids sample_store ''ann'' = {}"
    by (simp_all add: blocked_ids_def reported_ids_def sample_store_def)
  have cands: "service_candidates {''ann''} {}
      \<lparr> f_user_id = ''ann'', f_min_age = Some 18, f_max_age = Some 50,
         f_max_distance_km = Some 30 \<rparr> (all_users sample_store)
      = Inr [sample_user ''bob'', sample_user ''cy'']"
    by (simp add: sample_pool service_keeps_def sample_user_def truthy_def age_in_range_def)
  show ?thesis
    by (simp add: get_recommendations_def sample_profiles sample_filters sets
        service_matched_ids_empty cands Let_def service_entry_def score_ann_cy score_ann_bob
        py_slice_def slice_bound_def sample_user_def)
qed

section \<open>The claims about the feeds\<close>

text \<open>
  Claim C2, at a failing input. Ann has a profile and saved filters, and shares a
  non-deleted match with Bob, so Bob is in Ann's exclusion set; \<^verbatim>\<open>get_recommendations\<close>
  returns Bob to Ann, first in the page.
\<close>

theorem get_recommendations_returns_matched_user:
  "''bob'' \<in> spec_exclusion_set sample_store ''ann''
   \<and> map sr_id (get_recommendations sample_store ''ann'' 20 0) = [''bob'', ''cy'']"
proof -
  have "''bob'' \<in> spec_exclusion_set sample_store ''ann''"
    by (simp add: spec_exclusion_set_def spec_match_partners_def sample_store_def)
  then show ?thesis by (simp add: sample_service)
qed

text \<open>
  Claim C4, at a failing input. Dee has no location record; her valid discovery request
  is answered with the generic 500, not with the error 400 "User location not set".
\<close>

theorem get_discovery_without_location_answers_500:
  "discovery_query_valid 20 20 0 18 50 ''distance''
   \<and> record_of (location_single sample_store ''dee'') = None
   \<and> get_discovery sample_store sample_geodesic ''dee'' 20 20 0 18 50 ''distance''
       = Inl (HTTPException 500 (Str ClientError))"
proof -
  have v: "discovery_query_valid 20 20 0 18 50 ''distance''"
    by (simp add: discovery_query_valid_def)
  show ?thesis
    using get_discovery_without_location_row [OF v sample_locations(4), of sample_geodesic] v
    by (simp add: sample_locations record_of_def)
qed

text \<open>
  Claim C10, at a failing input. Dee has no location record; her valid recommendation
  request is answered with the generic 500, not with the error 400 "Location not set.
  Please update your location first.".
\<close>

theorem get_user_recommendations_without_location_answers_500:
  "recommendations_query_valid 20 0
   \<and> record_of (location_single sample_store ''dee'') = None
   \<and> get_user_recommendations sample_store haversine_distance ''dee'' 20 0
       = Inl (HTTPException 500 (Str ClientError))"
proof -
  have v: "recommendations_query_valid 20 0"
    by (simp add: recommendations_query_valid_def)
  show ?thesis
    using get_user_recommendations_without_location_row [OF v sample_locations(4),
        of haversine_distance] v
    by (simp add: sample_locations record_of_def)
qed

text \<open>
  Claim C8, at a failing input. Ann has a recorded coordinate and every pool row has
  one; her valid discovery request is answered with the generic 500, at offset 0 and at
  an offset beyond every possible total alike, where the claim promises a page.
\<close>

theorem get_discovery_answers_500_for_a_page:
  "discovery_query_valid 20 20 0 18 50 ''distance''
   \<and> discovery_query_valid 20 20 7 18 50 ''distance''
   \<and> coordinate sample_store ''ann'' = Some (1, 1)
   \<and> get_discovery sample_store sample_geodesic ''ann'' 20 20 0 18 50 ''distance''
       = Inl (HTTPException 500 (Str AttributeError))
   \<and> get_discovery sample_store sample_geodesic ''ann'' 20 20 7 18 50 ''distance''
       = Inl (HTTPException 500 (Str AttributeError))"
  by (simp add: sample_discovery discovery_query_valid_def coordinate_def sample_locations)

text \<open>
  Claim C9. Two discovery requests that differ only in \<open>min_age\<close> and \<open>max_age\<close>, each
  within its accepted range \<open>[18, 100]\<close>, get the same answer on the same store.
\<close>

theorem get_discovery_ignores_age:
  assumes "18 \<le> min_age \<and> min_age \<le> 100" "18 \<le> max_age \<and> max_age \<le> 100"
    "18 \<le> min_age' \<and> min_age' \<le> 100" "18 \<le> max_age' \<and> max_age' \<le> 100"
  shows "get_discovery st geodesic user_id distance_km limit offset min_age max_age sort_by
       = get_discovery st geodesic user_id distance_km limit offset min_age' max_age' sort_by"
  using assms by (simp add: get_discovery_def discovery_query_valid_def)

theorem get_discovery_ignores_age_witness:
  "((18::int) \<le> 18 \<and> (18::int) \<le> 100) \<and> ((18::int) \<le> 50 \<and> (50::int) \<le> 100)
   \<and> ((18::int) \<le> 30 \<and> (30::int) \<le> 100) \<and> ((18::int) \<le> 35 \<and> (35::int) \<le> 100)
   \<and> get_discovery sample_store sample_geodesic ''ann'' 20 20 0 30 35 ''distance''
       = Inl (HTTPException 500 (Str AttributeError))"
  using get_discovery_ignores_age [of 18 50 30 35 sample_store sample_geodesic "''ann''" 20 20 0
      "''distance''"] sample_discovery [of 0]
  by simp


end
